theory Spec2Isabelle
  imports Main "HOL-Library.Sublist"
begin

section \<open>The digest pipeline of \<open>src/app.py\<close>\<close>

text \<open>
  The program is one Flask handler, \<open>daily_digest\<close>, and four helpers:
  \<open>get_last_month_youtube_podcasts\<close>, \<open>download_audio\<close>, \<open>transcribe_audio\<close> and
  \<open>summarize_text\<close>. The helpers call external services (the video search, yt-dlp, the
  speech-to-text and the text-generation provider) and use the working directory as
  scratch space. The services are parameters of the model, gathered in the record
  \<open>env\<close>; the scratch directory and a trace of what the code did are the state
  \<open>world\<close>, passed through every function that touches them. An exception is the
  string \<open>str(e)\<close> that the handler reads from it, and a function that can raise returns
  \<open>exn + 'a\<close> with \<open>Inl\<close> for the raise.
\<close>

subsection \<open>Values\<close>

text \<open>
  What \<open>request.get_json()\<close> returns and what \<open>jsonify\<close> takes. A dict is the list of
  its items in insertion order; a key is looked up with \<open>map_of\<close>. Numbers are
  integers here (no claim reads a float).
\<close>

datatype json =
    JNull
  | JBool bool
  | JNum int
  | JStr string
  | JArr "json list"
  | JObj "(string \<times> json) list"

text \<open>Python's truth value of a decoded JSON value (\<open>if not data\<close>).\<close>

fun truthy :: "json \<Rightarrow> bool" where
  "truthy JNull = False"
| "truthy (JBool b) = b"
| "truthy (JNum n) = (n \<noteq> 0)"
| "truthy (JStr s) = (s \<noteq> [])"
| "truthy (JArr xs) = (xs \<noteq> [])"
| "truthy (JObj kvs) = (kvs \<noteq> [])"

text \<open>\<open>d.get(k, default)\<close> on a dict.\<close>

definition dict_get :: "(string \<times> json) list \<Rightarrow> string \<Rightarrow> json \<Rightarrow> json" where
  "dict_get kvs k dflt = (case map_of kvs k of None \<Rightarrow> dflt | Some v \<Rightarrow> v)"

text \<open>\<open>sep.join(xs)\<close>.\<close>

fun join :: "string \<Rightarrow> string list \<Rightarrow> string" where
  "join sep [] = []"
| "join sep [x] = x"
| "join sep (x # y # ys) = x @ sep @ join sep (y # ys)"

text \<open>
  \<open>s.strip()\<close>: the characters Python's \<open>str.isspace\<close> accepts below 128 are
  9 to 13, 28 to 31 and 32.
\<close>

definition isspace :: "char \<Rightarrow> bool" where
  "isspace c = ((of_char c :: nat) \<in> {9, 10, 11, 12, 13, 28, 29, 30, 31, 32})"

definition strip :: "string \<Rightarrow> string" where
  "strip s = rev (dropWhile isspace (rev (dropWhile isspace s)))"

type_synonym exn = string

text \<open>\<open>not key\<close> for a value of \<open>os.getenv\<close>: unset or the empty string.\<close>

fun key_missing :: "string option \<Rightarrow> bool" where
  "key_missing None = True"
| "key_missing (Some k) = (k = [])"

subsection \<open>Collaborators and state\<close>

text \<open>One item of the search response, as far as the code reads it.\<close>

record search_item =
  videoId :: "string option"
  snippet_title :: string
  snippet_channelTitle :: string
  snippet_publishedAt :: string

text \<open>A candidate: the dict built at lines 70 to 75.\<close>

record podcast =
  title :: string
  channel :: string
  published_at :: string
  video_url :: string

text \<open>
  What the speech-to-text client returns (line 144): a string, an object with a
  \<open>text\<close> attribute, or anything else, of which the code takes \<open>str(...)\<close>.
\<close>

datatype transcript = PlainText string | StructuredText string | OtherObject string

text \<open>
  \<^item> \<open>youtube_search q n\<close>: \<open>build\<close>, \<open>search().list(q=q, maxResults=n, ...)\<close> and
    \<open>execute()\<close>, at the time of the request; \<open>Inl\<close> when any of them raises, also on a
    response that lacks a key the code indexes.
  \<^item> \<open>uuid4 i\<close>: the text of the UUID drawn in iteration \<open>i\<close> of the handler's loop.
  \<^item> \<open>ydl tmpl url fs\<close>: \<open>extract_info\<close> with download, then \<open>prepare_filename\<close>; it
    returns the scratch directory as the download left it, and the prepared file name
    or the exception.
  \<^item> \<open>whisper path size\<close>: opening the file and \<open>audio.transcriptions.create\<close>.
  \<^item> \<open>gpt prompt\<close>: \<open>chat.completions.create\<close> and the first choice's content, which
    may be \<open>None\<close>.
  \<^item> \<open>mb_1f size\<close>: Python's \<open>f"{size/1024/1024:.1f}"\<close> (a float, not computed here).
  \<^item> \<open>format_value v\<close>: how an f-string renders a value that is not a string.
\<close>

record env =
  OPENAI_API_KEY :: "string option"
  YOUTUBE_API_KEY :: "string option"
  youtube_search :: "string \<Rightarrow> nat \<Rightarrow> exn + search_item list"
  uuid4 :: "nat \<Rightarrow> string"
  ydl :: "string \<Rightarrow> string \<Rightarrow> (string \<times> nat) list \<Rightarrow> (string \<times> nat) list \<times> (exn + string)"
  whisper :: "string \<Rightarrow> nat \<Rightarrow> exn + transcript"
  gpt :: "string \<Rightarrow> exn + string option"
  mb_1f :: "nat \<Rightarrow> string"
  format_value :: "json \<Rightarrow> string"

text \<open>
  The trace records the loop's \<open>Processing video\<close> line (one per attempted item) and
  each call of a per-item collaborator.
\<close>

datatype event =
    Processing podcast
  | Download string
  | Transcribe string
  | Generate string

text \<open>The scratch directory maps a file name to its size in bytes.\<close>

record world =
  files :: "(string \<times> nat) list"
  trace :: "event list"

definition emit :: "event \<Rightarrow> world \<Rightarrow> world" where
  "emit e w = w\<lparr>trace := trace w @ [e]\<rparr>"

definition path_exists :: "world \<Rightarrow> string \<Rightarrow> bool" where
  "path_exists w p = (map_of (files w) p \<noteq> None)"

definition listdir :: "world \<Rightarrow> string list" where
  "listdir w = map fst (files w)"

text \<open>\<open>os.remove\<close> of a file; the cleanup's own failure branch only prints.\<close>

definition os_remove :: "world \<Rightarrow> string \<Rightarrow> world" where
  "os_remove w p = w\<lparr>files := filter (\<lambda>(n, _). n \<noteq> p) (files w)\<rparr>"

subsection \<open>Constants\<close>

definition TOP_PLAYERS :: "string list" where
  "TOP_PLAYERS = [''Maersk'', ''CMA CGM'', ''Hapag-Lloyd'', ''MSC'', ''ONE'']"

definition max_videos_to_process :: nat where
  "max_videos_to_process = 3"

definition max_chars :: nat where
  "max_chars = 12000"

subsection \<open>\<open>get_last_month_youtube_podcasts\<close>\<close>

text \<open>The loop of lines 66 to 75; an item without a video id is skipped.\<close>

fun podcasts_of :: "search_item list \<Rightarrow> podcast list" where
  "podcasts_of [] = []"
| "podcasts_of (item # items) =
     (case videoId item of
        None \<Rightarrow> podcasts_of items
      | Some video_id \<Rightarrow>
          if video_id = [] then podcasts_of items
          else \<lparr>title = snippet_title item,
                channel = snippet_channelTitle item,
                published_at = snippet_publishedAt item,
                video_url = ''https://www.youtube.com/watch?v='' @ video_id\<rparr> # podcasts_of items)"

definition get_last_month_youtube_podcasts :: "env \<Rightarrow> string \<Rightarrow> nat \<Rightarrow> podcast list" where
  "get_last_month_youtube_podcasts env search_keywords max_results =
     (if key_missing (YOUTUBE_API_KEY env) then []
      else case youtube_search env search_keywords max_results of
             Inl e \<Rightarrow> []
           | Inr items \<Rightarrow> podcasts_of items)"

subsection \<open>\<open>download_audio\<close>\<close>

definition audio_ext :: "string \<Rightarrow> bool" where
  "audio_ext file = (suffix ''.m4a'' file \<or> suffix ''.mp3'' file \<or> suffix ''.webm'' file)"

definition download_audio :: "env \<Rightarrow> nat \<Rightarrow> world \<Rightarrow> string \<Rightarrow> world \<times> (exn + string)" where
  "download_audio env i w url =
     (let unique_id = take 8 (uuid4 env i);
          output_template = ''audio_'' @ unique_id @ ''.%(ext)s'';
          w1 = emit (Download url) w
      in case ydl env output_template url (files w1) of
           (fs, Inl e) \<Rightarrow> (w1\<lparr>files := fs\<rparr>, Inl e)
         | (fs, Inr filename) \<Rightarrow>
             (let w2 = w1\<lparr>files := fs\<rparr>
              in if path_exists w2 filename then (w2, Inr filename)
                 else case find (\<lambda>file. sublist unique_id file \<and> audio_ext file) (listdir w2) of
                        Some file \<Rightarrow> (w2, Inr file)
                      | None \<Rightarrow> (w2, Inl ''Downloaded file not found'')))"

subsection \<open>\<open>transcribe_audio\<close>\<close>

fun transcript_text :: "transcript \<Rightarrow> string" where
  "transcript_text (PlainText s) = s"
| "transcript_text (StructuredText s) = s"
| "transcript_text (OtherObject s) = s"

text \<open>
  The three checks of lines 122 to 132 raise before the \<open>try\<close> of line 134 is entered,
  so the \<open>finally\<close> of line 152 runs only on the last branch.
\<close>

definition transcribe_audio :: "env \<Rightarrow> world \<Rightarrow> string \<Rightarrow> world \<times> (exn + string)" where
  "transcribe_audio env w file_path =
     (if key_missing (OPENAI_API_KEY env) then (w, Inl ''OpenAI API key not available'')
      else case map_of (files w) file_path of
             None \<Rightarrow> (w, Inl (''Audio file not found: '' @ file_path))
           | Some file_size \<Rightarrow>
               if file_size < 1000 then (w, Inl ''Audio file too small - likely corrupted'')
               else if file_size > 25 * 1024 * 1024
                 then (w, Inl (''File too large: '' @ mb_1f env file_size @ ''MB (max 25MB)''))
               else
                 (let w1 = emit (Transcribe file_path) w;
                      r = (case whisper env file_path file_size of
                             Inl e \<Rightarrow> Inl e
                           | Inr t \<Rightarrow> Inr (transcript_text t));
                      w2 = (if path_exists w1 file_path then os_remove w1 file_path else w1)
                  in (w2, r)))"

subsection \<open>\<open>summarize_text\<close>\<close>

definition nl :: string where
  "nl = [CHR 0x0A]"

definition prompt_of :: "string \<Rightarrow> string" where
  "prompt_of text =
     nl @
     ''    Summarize the following podcast transcript, focusing on key shipping industry insights:'' @ nl @
     ''    '' @ nl @
     ''    Key areas to highlight:'' @ nl @
     ''    - Global policy impacts and regulatory changes'' @ nl @
     ''    - Political issues affecting shipping'' @ nl @
     ''    - Technology advancements and innovations'' @ nl @
     ''    - Market trends and business developments'' @ nl @
     ''    - Mentions of major players: '' @ join '', '' TOP_PLAYERS @ nl @
     ''    '' @ nl @
     ''    Provide a concise summary with actionable insights in bullet points.'' @ nl @
     ''    '' @ nl @
     ''    Transcript:'' @ nl @
     ''    '' @ text @ nl @
     ''    ''"

definition summarize_text :: "env \<Rightarrow> world \<Rightarrow> string \<Rightarrow> world \<times> string" where
  "summarize_text env w text =
     (if key_missing (OPENAI_API_KEY env)
        then (w, ''OpenAI API key not available for summarization'')
      else if text = [] \<or> length (strip text) < 50
        then (w, ''Transcript too short to generate meaningful summary'')
      else
        (let text1 = (if length text > max_chars then take max_chars text @ ''...'' else text);
             prompt = prompt_of text1;
             w1 = emit (Generate prompt) w
         in case gpt env prompt of
              Inl e \<Rightarrow> (w1, ''Summary generation failed: '' @ e)
            | Inr None \<Rightarrow> (w1, ''Summary could not be generated - empty response'')
            | Inr (Some summary_text) \<Rightarrow>
                if summary_text = [] \<or> strip summary_text = []
                  then (w1, ''Summary could not be generated - empty response'')
                else (w1, summary_text)))"

subsection \<open>\<open>daily_digest\<close>\<close>

text \<open>The two dicts appended to \<open>summaries\<close> (lines 267 to 274 and 283 to 290).\<close>

definition success_entry :: "podcast \<Rightarrow> string \<Rightarrow> string \<Rightarrow> json" where
  "success_entry p summary transcription =
     JObj [(''title'', JStr (title p)),
           (''channel'', JStr (channel p)),
           (''published_at'', JStr (published_at p)),
           (''video_url'', JStr (video_url p)),
           (''summary'', JStr summary),
           (''transcript_length'', JNum (int (length transcription)))]"

definition failure_entry :: "podcast \<Rightarrow> string \<Rightarrow> json" where
  "failure_entry p error_msg =
     JObj [(''title'', JStr (title p)),
           (''channel'', JStr (channel p)),
           (''published_at'', JStr (published_at p)),
           (''video_url'', JStr (video_url p)),
           (''summary'', JStr (''Processing failed: '' @ error_msg)),
           (''error'', JStr error_msg)]"

text \<open>
  The body of the \<open>try\<close> of lines 257 to 277: \<open>Inr\<close> the entry it appends, \<open>Inl\<close> the
  message of the exception that leaves it.
\<close>

definition try_item :: "env \<Rightarrow> nat \<Rightarrow> world \<Rightarrow> podcast \<Rightarrow> world \<times> (exn + json)" where
  "try_item env i w p =
     (case download_audio env i w (video_url p) of
        (w1, Inl e) \<Rightarrow> (w1, Inl e)
      | (w1, Inr audio_path) \<Rightarrow>
          (case transcribe_audio env w1 audio_path of
             (w2, Inl e) \<Rightarrow> (w2, Inl e)
           | (w2, Inr transcription) \<Rightarrow>
               (case summarize_text env w2 transcription of
                  (w3, summary) \<Rightarrow> (w3, Inr (success_entry p summary transcription)))))"

text \<open>
  The loop of lines 250 to 290 over the candidates still to visit, with the loop
  index, \<open>summaries\<close> and \<open>processed_count\<close>.
\<close>

fun digest_loop ::
  "env \<Rightarrow> nat \<Rightarrow> podcast list \<Rightarrow> world \<Rightarrow> json list \<Rightarrow> nat \<Rightarrow> world \<times> json list \<times> nat" where
  "digest_loop env i [] w summaries processed_count = (w, summaries, processed_count)"
| "digest_loop env i (p # rest) w summaries processed_count =
     (if processed_count \<ge> max_videos_to_process then (w, summaries, processed_count)
      else case try_item env i (emit (Processing p) w) p of
             (w1, Inr entry) \<Rightarrow>
               digest_loop env (Suc i) rest w1 (summaries @ [entry]) (processed_count + 1)
           | (w1, Inl error_msg) \<Rightarrow>
               digest_loop env (Suc i) rest w1 (summaries @ [failure_entry p error_msg])
                 processed_count)"

text \<open>
  Lines 223 to 234: the entity list, or \<open>None\<close> where the handler answers 400.
  \<open>normalize_companies\<close> is lines 230 to 234, applied to the value that lines 223 to
  227 picked.
\<close>

definition normalize_companies :: "json \<Rightarrow> json list option" where
  "normalize_companies companies_list =
     (let companies_list = (case companies_list of JStr s \<Rightarrow> JArr [JStr s] | v \<Rightarrow> v)
      in case companies_list of
           JArr xs \<Rightarrow> (if xs = [] then None else Some xs)
         | _ \<Rightarrow> None)"

definition resolve_companies :: "(string \<times> json) list \<Rightarrow> json list option" where
  "resolve_companies data =
     (let companies_list = dict_get data ''company'' (JArr (map JStr TOP_PLAYERS));
          companies_list = (if \<not> truthy companies_list
                            then dict_get data ''companies'' (JArr (map JStr TOP_PLAYERS))
                            else companies_list)
      in normalize_companies companies_list)"

text \<open>Line 237. An f-string renders a string as it is.\<close>

definition fstr :: "env \<Rightarrow> json \<Rightarrow> string" where
  "fstr env v = (case v of JStr s \<Rightarrow> s | _ \<Rightarrow> format_value env v)"

definition build_search_keywords :: "env \<Rightarrow> json \<Rightarrow> json list \<Rightarrow> string" where
  "build_search_keywords env category companies_list =
     fstr env category @ '' podcast OR interview OR news '' @
     join '' OR '' (map (\<lambda>company. [CHR 0x22] @ fstr env company @ [CHR 0x22]) companies_list)"

text \<open>
  The handler, in three parts: \<open>pipeline\<close> is lines 236 to 296, \<open>handle_dict\<close>
  lines 222 to 234 before it, \<open>daily_digest\<close> the whole. Its argument is what \<open>request.get_json()\<close> did: \<open>Inl\<close> when it raised,
  \<open>Inr JNull\<close> when it returned \<open>None\<close>. The result is the state, the HTTP status and the
  body given to \<open>jsonify\<close>. \<open>data.get\<close> on a value that is not a dict raises
  \<open>AttributeError\<close>, which the \<open>except\<close> of line 298 turns into the empty array, as it
  does with an exception of \<open>get_json\<close>.
\<close>

definition pipeline :: "env \<Rightarrow> world \<Rightarrow> json \<Rightarrow> json list \<Rightarrow> world \<times> nat \<times> json" where
  "pipeline env w category companies_list =
     (let search_keywords = build_search_keywords env category companies_list;
          podcasts = get_last_month_youtube_podcasts env search_keywords 5
      in if podcasts = [] then (w, 200, JArr [])
         else (case digest_loop env 0 podcasts w [] 0 of
                 (w1, summaries, processed_count) \<Rightarrow> (w1, 200, JArr summaries)))"

definition handle_dict :: "env \<Rightarrow> world \<Rightarrow> (string \<times> json) list \<Rightarrow> world \<times> nat \<times> json" where
  "handle_dict env w kvs =
     (let category = dict_get kvs ''category'' (JStr ''shipping industry'')
      in case resolve_companies kvs of
           None \<Rightarrow>
             (w, 400, JObj [(''error'', JStr ''company/companies must be a non-empty list or string'')])
         | Some companies_list \<Rightarrow> pipeline env w category companies_list)"

definition daily_digest :: "env \<Rightarrow> world \<Rightarrow> exn + json \<Rightarrow> world \<times> nat \<times> json" where
  "daily_digest env w req =
     (case req of
        Inl e \<Rightarrow> (w, 200, JArr [])
      | Inr data \<Rightarrow>
          (if \<not> truthy data then (w, 400, JObj [(''error'', JStr ''Missing JSON body'')])
           else (case data of
                   JObj kvs \<Rightarrow> handle_dict env w kvs
                 | _ \<Rightarrow> (w, 200, JArr []))))"

section \<open>Vocabulary of the properties\<close>

text \<open>A field of an entry of the response, and whether the entry carries \<open>error\<close>.\<close>

definition field :: "string \<Rightarrow> json \<Rightarrow> json option" where
  "field k e = (case e of JObj kvs \<Rightarrow> map_of kvs k | _ \<Rightarrow> None)"

definition has_error :: "json \<Rightarrow> bool" where
  "has_error e = (field ''error'' e \<noteq> None)"

definition is_success :: "json \<Rightarrow> bool" where
  "is_success e = (\<not> has_error e)"

text \<open>The items the loop started on: the \<open>Processing\<close> lines of a trace, in order.\<close>

fun attempted :: "event list \<Rightarrow> podcast list" where
  "attempted [] = []"
| "attempted (Processing p # es) = p # attempted es"
| "attempted (e # es) = attempted es"

text \<open>
  One iteration of the loop past the test of the cap: the state after it, the entry it
  appends and whether it incremented \<open>processed_count\<close>.
\<close>

definition attempt :: "env \<Rightarrow> nat \<Rightarrow> world \<Rightarrow> podcast \<Rightarrow> world \<times> json \<times> bool" where
  "attempt env i w p =
     (case try_item env i (emit (Processing p) w) p of
        (w1, Inr entry) \<Rightarrow> (w1, entry, True)
      | (w1, Inl error_msg) \<Rightarrow> (w1, failure_entry p error_msg, False))"

text \<open>An entry that carries the four fields of a candidate.\<close>

definition entry_of :: "podcast \<Rightarrow> json \<Rightarrow> bool" where
  "entry_of p e =
     (field ''title'' e = Some (JStr (title p)) \<and>
      field ''channel'' e = Some (JStr (channel p)) \<and>
      field ''published_at'' e = Some (JStr (published_at p)) \<and>
      field ''video_url'' e = Some (JStr (video_url p)))"

text \<open>The entries of a response body; the error object of a 400 holds none.\<close>

definition digest_entries :: "json \<Rightarrow> json list" where
  "digest_entries body = (case body of JArr xs \<Rightarrow> xs | _ \<Rightarrow> [])"

text \<open>
  The search string as the specification words it: the topic, the fixed words, then
  every entity in double quotes, joined with \<open>OR\<close>.
\<close>

definition quoted :: "string \<Rightarrow> string" where
  "quoted e = [CHR 0x22] @ e @ [CHR 0x22]"

fun spec_search_string :: "string \<Rightarrow> string list \<Rightarrow> string" where
  "spec_search_string t [] = t @ '' podcast OR interview OR news ''"
| "spec_search_string t (e # es) =
     t @ '' podcast OR interview OR news '' @ quoted e @ concat (map (\<lambda>x. '' OR '' @ quoted x) es)"

section \<open>A concrete environment\<close>

text \<open>
  Collaborators to run the model on: the search returns the listed video ids, yt-dlp
  fails on the ids \<open>bad1\<close> to \<open>bad4\<close> and otherwise writes an \<open>m4a\<close> file (of 500 bytes
  for \<open>tiny\<close>, of 26 MiB for \<open>huge\<close>, of 2048 bytes for the rest), the transcription
  returns one sentence of 71 characters and the generation a one-line summary. The
  size in megabytes is formatted for the one file above the limit.
\<close>

definition demo_text :: string where
  "demo_text = ''Container rates rose again this week as carriers blanked more sailings.''"

definition watch :: "string \<Rightarrow> string" where
  "watch v = ''https://www.youtube.com/watch?v='' @ v"

definition demo_ydl ::
  "string \<Rightarrow> string \<Rightarrow> (string \<times> nat) list \<Rightarrow> (string \<times> nat) list \<times> (exn + string)" where
  "demo_ydl tmpl url fs =
     (if url \<in> set (map watch [''bad1'', ''bad2'', ''bad3'', ''bad4''])
        then (fs, Inl ''ERROR: Video unavailable'')
      else
        (let filename = take (length tmpl - 7) tmpl @ ''m4a'';
             size = (if url = watch ''tiny'' then 500
                     else if url = watch ''huge'' then 26 * 1024 * 1024
                     else 2048)
         in (fs @ [(filename, size)], Inr filename)))"

definition demo_uuid4 :: "nat \<Rightarrow> string" where
  "demo_uuid4 i = ''3f2a9c1'' @ [''0123456789'' ! (i mod 10)] @ ''-7d1e-4b8a-9c55-0a1b2c3d4e5f''"

definition demo_item :: "string \<Rightarrow> search_item" where
  "demo_item v =
     \<lparr>videoId = Some v, snippet_title = ''Episode '' @ v, snippet_channelTitle = ''Port Talk'',
      snippet_publishedAt = ''2025-01-15T08:00:00Z''\<rparr>"

definition demo_env :: "string list \<Rightarrow> env" where
  "demo_env ids =
     \<lparr>OPENAI_API_KEY = Some ''sk-test'',
      YOUTUBE_API_KEY = Some ''yt-test'',
      youtube_search = (\<lambda>q n. Inr (take n (map demo_item ids))),
      uuid4 = demo_uuid4,
      ydl = demo_ydl,
      whisper = (\<lambda>path size. Inr (PlainText demo_text)),
      gpt = (\<lambda>prompt. Inr (Some ''- Spot rates are rising'')),
      mb_1f = (\<lambda>n. if n = 27262976 then ''26.0'' else ''25.1''),
      format_value = (\<lambda>v. ''None'')\<rparr>"

definition world0 :: world where
  "world0 = \<lparr>files = [], trace = []\<rparr>"

definition demo_podcast :: "string \<Rightarrow> podcast" where
  "demo_podcast v =
     \<lparr>title = ''Episode '' @ v, channel = ''Port Talk'',
      published_at = ''2025-01-15T08:00:00Z'', video_url = watch v\<rparr>"

definition five_good :: "podcast list" where
  "five_good = map demo_podcast [''ok1'', ''ok2'', ''ok3'', ''ok4'', ''ok5'']"

definition four_bad :: "podcast list" where
  "four_bad = map demo_podcast [''bad1'', ''bad2'', ''bad3'', ''bad4'']"

definition shipping_request :: "exn + json" where
  "shipping_request = Inr (JObj [(''category'', JStr ''shipping''), (''company'', JArr [JStr ''A'', JStr ''B''])])"


text \<open>
  Variations: a scratch directory that holds one downloaded file of a given size, a
  transcription that returns a short text, a generation service that raises, and a
  missing search credential.
\<close>

definition scratch_with :: "nat \<Rightarrow> world" where
  "scratch_with n = \<lparr>files = [(''audio_3f2a9c10.m4a'', n)], trace = []\<rparr>"

definition short_env :: env where
  "short_env = (demo_env [])\<lparr>whisper := (\<lambda>path size. Inr (StructuredText ''Thanks for watching.''))\<rparr>"



section \<open>Lemmas\<close>

lemmas model_defs =
  attempt_def try_item_def download_audio_def transcribe_audio_def summarize_text_def
  emit_def path_exists_def listdir_def os_remove_def failure_entry_def success_entry_def
  max_videos_to_process_def max_chars_def Let_def

lemmas demo_defs =
  demo_env_def demo_ydl_def demo_uuid4_def demo_item_def demo_podcast_def world0_def watch_def
  demo_text_def

lemma attempted_append: "attempted (xs @ ys) = attempted xs @ attempted ys"
  by (induction xs rule: attempted.induct) auto

lemma trace_emit: "trace (emit e w) = trace w @ [e]"
  by (simp add: emit_def)

lemma download_audio_attempted:
  "attempted (trace (fst (download_audio env i w url))) = attempted (trace w)"
  by (auto simp: download_audio_def Let_def trace_emit attempted_append split: prod.splits sum.splits option.splits)

lemma transcribe_audio_attempted:
  "attempted (trace (fst (transcribe_audio env w path))) = attempted (trace w)"
  by (auto simp: transcribe_audio_def Let_def trace_emit os_remove_def attempted_append split: option.splits)

lemma summarize_text_attempted:
  "attempted (trace (fst (summarize_text env w text))) = attempted (trace w)"
  by (auto simp: summarize_text_def Let_def trace_emit attempted_append split: sum.splits option.splits)

lemma try_item_attempted:
  "attempted (trace (fst (try_item env i w p))) = attempted (trace w)"
proof -
  obtain w1 r1 where d: "download_audio env i w (video_url p) = (w1, r1)" by fastforce
  have a1: "attempted (trace w1) = attempted (trace w)"
    using download_audio_attempted [of env i w "video_url p"] d by simp
  show ?thesis
  proof (cases r1)
    case (Inl e)
    then show ?thesis using d a1 by (simp add: try_item_def)
  next
    case (Inr path)
    obtain w2 r2 where t: "transcribe_audio env w1 path = (w2, r2)" by fastforce
    have a2: "attempted (trace w2) = attempted (trace w1)"
      using transcribe_audio_attempted [of env w1 path] t by simp
    show ?thesis
    proof (cases r2)
      case (Inl e)
      then show ?thesis using d Inr t a1 a2 by (simp add: try_item_def)
    next
      case (Inr tr)
      obtain w3 s where su: "summarize_text env w2 tr = (w3, s)" by fastforce
      have a3: "attempted (trace w3) = attempted (trace w2)"
        using summarize_text_attempted [of env w2 tr] su by simp
      show ?thesis using d \<open>r1 = Inr path\<close> t Inr su a1 a2 a3 by (simp add: try_item_def)
    qed
  qed
qed

lemma try_item_Inr:
  "try_item env i w p = (w', Inr e) \<Longrightarrow> \<exists>s t. e = success_entry p s t"
  by (auto simp: try_item_def split: prod.splits sum.splits)

lemma attempt_attempted:
  "attempted (trace (fst (attempt env i w p))) = attempted (trace w) @ [p]"
  using try_item_attempted [of env i "emit (Processing p) w" p]
  by (auto simp: attempt_def trace_emit attempted_append split: prod.splits sum.splits)

lemma has_error_success: "\<not> has_error (success_entry p s t)"
  by (simp add: has_error_def field_def success_entry_def)

lemma has_error_failure: "has_error (failure_entry p m)"
  by (simp add: has_error_def field_def failure_entry_def)

lemma entry_of_success: "entry_of p (success_entry p s t)"
  by (simp add: entry_of_def field_def success_entry_def)

lemma entry_of_failure: "entry_of p (failure_entry p m)"
  by (simp add: entry_of_def field_def failure_entry_def)

lemma attempt_entry:
  "attempt env i w p = (w', e, ok) \<Longrightarrow> entry_of p e \<and> (has_error e \<longleftrightarrow> \<not> ok) \<and> field ''summary'' e \<noteq> None"
  by (auto simp: attempt_def has_error_success has_error_failure entry_of_success entry_of_failure
      dest!: try_item_Inr split: prod.splits sum.splits)
     (simp_all add: field_def success_entry_def failure_entry_def)

lemma digest_loop_acc:
  "digest_loop env i ps w acc c =
     (case digest_loop env i ps w [] c of (w', out, c') \<Rightarrow> (w', acc @ out, c'))"
proof (induction ps arbitrary: i w acc c)
  case Nil
  then show ?case by simp
next
  case (Cons p ps)
  show ?case
  proof (cases "c \<ge> max_videos_to_process")
    case True
    then show ?thesis by simp
  next
    case False
    obtain w1 r where t: "try_item env i (emit (Processing p) w) p = (w1, r)" by fastforce
    show ?thesis
    proof (cases r)
      case (Inl m)
      show ?thesis
        using False t Inl
          Cons.IH [of "Suc i" w1 "acc @ [failure_entry p m]" c]
          Cons.IH [of "Suc i" w1 "[failure_entry p m]" c]
        by (simp split: prod.splits)
    next
      case (Inr e)
      show ?thesis
        using False t Inr
          Cons.IH [of "Suc i" w1 "acc @ [e]" "c + 1"]
          Cons.IH [of "Suc i" w1 "[e]" "c + 1"]
        by (simp split: prod.splits)
    qed
  qed
qed

lemma digest_loop_Cons:
  "digest_loop env i (p # ps) w [] c =
     (if c \<ge> max_videos_to_process then (w, [], c)
      else case attempt env i w p of
             (w1, e, ok) \<Rightarrow>
               (case digest_loop env (Suc i) ps w1 [] (if ok then c + 1 else c) of
                  (w', out, c') \<Rightarrow> (w', e # out, c')))"
proof (cases "c \<ge> max_videos_to_process")
  case True
  then show ?thesis by simp
next
  case False
  obtain w1 r where t: "try_item env i (emit (Processing p) w) p = (w1, r)" by fastforce
  show ?thesis
  proof (cases r)
    case (Inl m)
    show ?thesis
      using False t Inl digest_loop_acc [of env "Suc i" ps w1 "[failure_entry p m]" c]
      by (simp add: attempt_def split: prod.splits)
  next
    case (Inr e)
    show ?thesis
      using False t Inr digest_loop_acc [of env "Suc i" ps w1 "[e]" "c + 1"]
      by (simp add: attempt_def split: prod.splits)
  qed
qed

lemma digest_loop_inv:
  "digest_loop env i ps w [] c = (w', out, c') \<Longrightarrow> c \<le> max_videos_to_process \<Longrightarrow>
     list_all2 entry_of (take (length out) ps) out
   \<and> attempted (trace w') = attempted (trace w) @ take (length out) ps
   \<and> c' = c + length (filter is_success out)
   \<and> c' \<le> max_videos_to_process
   \<and> length out \<le> length ps
   \<and> (length out < length ps \<longrightarrow> c' = max_videos_to_process)
   \<and> (out \<noteq> [] \<and> c' = max_videos_to_process \<longrightarrow> is_success (last out))
   \<and> (\<forall>e\<in>set out. field ''summary'' e \<noteq> None)"
proof (induction ps arbitrary: i w c w' out c')
  case Nil
  then show ?case by simp
next
  case (Cons p ps)
  show ?case
  proof (cases "c \<ge> max_videos_to_process")
    case True
    with Cons.prems show ?thesis by auto
  next
    case False
    obtain w1 e ok where a: "attempt env i w p = (w1, e, ok)"
      by (metis prod_cases3)
    define c1 where "c1 = (if ok then c + 1 else c)"
    obtain w2 out2 c2 where r: "digest_loop env (Suc i) ps w1 [] c1 = (w2, out2, c2)"
      by (metis prod_cases3)
    have res: "w' = w2" "out = e # out2" "c' = c2"
      using Cons.prems(1) False a r unfolding digest_loop_Cons c1_def by simp_all
    have c1: "c1 \<le> max_videos_to_process" using False by (simp add: c1_def)
    note ih = Cons.IH [OF r c1]
    have e: "entry_of p e" "has_error e \<longleftrightarrow> \<not> ok" "field ''summary'' e \<noteq> None"
      using attempt_entry [OF a] by simp_all
    have tr: "attempted (trace w1) = attempted (trace w) @ [p]"
      using attempt_attempted [of env i w p] a by simp
    have cnt: "c1 = c + length (filter is_success [e])"
      using e(2) by (simp add: c1_def is_success_def)
    have last: "out2 = [] \<Longrightarrow> c2 = max_videos_to_process \<Longrightarrow> is_success e"
      using ih False e(2) by (auto simp: c1_def is_success_def split: if_splits)
    show ?thesis
      unfolding res using ih e tr cnt last by auto
  qed
qed

lemma pipeline_cases:
  assumes "pipeline env w category companies_list = (w', status, body)"
  shows "status = 200 \<and>
         ((w' = w \<and> body = JArr []) \<or>
          (\<exists>summaries c. digest_loop env 0
              (get_last_month_youtube_podcasts env (build_search_keywords env category companies_list) 5)
              w [] 0 = (w', summaries, c) \<and> body = JArr summaries))"
  using assms by (auto simp: pipeline_def Let_def split: if_splits prod.splits)

lemma daily_digest_cases:
  assumes "daily_digest env w req = (w', status, body)"
  shows "(status = 400 \<and> w' = w \<and> (\<exists>m. body = JObj [(''error'', JStr m)]) \<and>
            (\<exists>data. req = Inr data \<and>
               (\<not> truthy data \<or> (\<exists>kvs. data = JObj kvs \<and> resolve_companies kvs = None))))
       \<or> (status = 200 \<and> w' = w \<and> body = JArr [])
       \<or> (status = 200 \<and> (\<exists>q summaries c.
              digest_loop env 0 (get_last_month_youtube_podcasts env q 5) w [] 0 = (w', summaries, c)
              \<and> body = JArr summaries))"
proof (cases req)
  case (Inl e)
  with assms show ?thesis by (simp add: daily_digest_def)
next
  case (Inr data)
  show ?thesis
  proof (cases "truthy data")
    case False
    with assms Inr show ?thesis by (auto simp: daily_digest_def)
  next
    case True
    show ?thesis
    proof (cases data)
      case (JObj kvs)
      show ?thesis
      proof (cases "resolve_companies kvs")
        case None
        with assms Inr True JObj show ?thesis
          by (auto simp: daily_digest_def handle_dict_def)
      next
        case (Some cs)
        have "pipeline env w (dict_get kvs ''category'' (JStr ''shipping industry'')) cs = (w', status, body)"
          using assms Inr True JObj Some by (simp add: daily_digest_def handle_dict_def)
        from pipeline_cases [OF this] show ?thesis by blast
      qed
    qed (use assms Inr True in \<open>auto simp: daily_digest_def\<close>)
  qed
qed


lemma digest_loop_step:
  "c < max_videos_to_process \<Longrightarrow>
   digest_loop env i (p # ps) w [] c =
     (fst (digest_loop env (Suc i) ps (fst (attempt env i w p)) []
             (if snd (snd (attempt env i w p)) then c + 1 else c)),
      fst (snd (attempt env i w p)) #
        fst (snd (digest_loop env (Suc i) ps (fst (attempt env i w p)) []
             (if snd (snd (attempt env i w p)) then c + 1 else c))),
      snd (snd (digest_loop env (Suc i) ps (fst (attempt env i w p)) []
             (if snd (snd (attempt env i w p)) then c + 1 else c))))"
  unfolding digest_loop_Cons by (simp add: case_prod_beta)

lemma demo_attempt_good:
  assumes "files w = []" and "(i, v) \<in> {(0, ''ok1''), (1, ''ok2''), (2, ''ok3'')}"
  shows "snd (attempt (demo_env ids) i w (demo_podcast v)) =
           (success_entry (demo_podcast v) ''- Spot rates are rising'' demo_text, True)"
    and "files (fst (attempt (demo_env ids) i w (demo_podcast v))) = []"
  using assms by (auto simp: model_defs demo_defs strip_def isspace_def)

lemma demo_attempt_bad:
  assumes "v \<in> {''bad1'', ''bad2'', ''bad3'', ''bad4''}"
  shows "snd (attempt (demo_env ids) i w (demo_podcast v)) =
           (failure_entry (demo_podcast v) ''ERROR: Video unavailable'', False)"
  using assms by (auto simp: model_defs demo_defs)

lemma five_good_entries:
  "snd (digest_loop (demo_env ids) 0 five_good world0 [] 0) =
     ([success_entry (demo_podcast ''ok1'') ''- Spot rates are rising'' demo_text,
       success_entry (demo_podcast ''ok2'') ''- Spot rates are rising'' demo_text,
       success_entry (demo_podcast ''ok3'') ''- Spot rates are rising'' demo_text], 3)"
proof -
  have f0: "files world0 = []" by (simp add: world0_def)
  show ?thesis
    unfolding five_good_def list.map
    by (simp add: digest_loop_step demo_attempt_good f0 max_videos_to_process_def
        del: digest_loop.simps(2))
       (simp add: max_videos_to_process_def)
qed

lemma four_bad_entries:
  "snd (digest_loop (demo_env ids) 0 four_bad world0 [] 0) =
     (map (\<lambda>v. failure_entry (demo_podcast v) ''ERROR: Video unavailable'')
        [''bad1'', ''bad2'', ''bad3'', ''bad4''], 0)"
  unfolding four_bad_def list.map
  by (simp add: digest_loop_step demo_attempt_bad max_videos_to_process_def
      del: digest_loop.simps(2))

lemma daily_digest_run:
  assumes "kvs \<noteq> []" and "resolve_companies kvs = Some cs"
    and "get_last_month_youtube_podcasts env
           (build_search_keywords env (dict_get kvs ''category'' (JStr ''shipping industry'')) cs) 5 = ps"
    and "ps \<noteq> []"
  shows "daily_digest env w (Inr (JObj kvs)) =
           (fst (digest_loop env 0 ps w [] 0), 200, JArr (fst (snd (digest_loop env 0 ps w [] 0))))"
  using assms by (simp add: daily_digest_def handle_dict_def pipeline_def case_prod_beta)

lemma demo_search_bad:
  "get_last_month_youtube_podcasts (demo_env [''bad1'', ''bad2'', ''bad3'', ''bad4'']) q 5 = four_bad"
  by (simp add: get_last_month_youtube_podcasts_def demo_env_def demo_item_def four_bad_def
      demo_podcast_def watch_def)

lemma demo_search_good:
  "get_last_month_youtube_podcasts (demo_env [''ok1'', ''ok2'', ''ok3'', ''ok4'', ''ok5'']) q 5 = five_good"
  by (simp add: get_last_month_youtube_podcasts_def demo_env_def demo_item_def five_good_def
      demo_podcast_def watch_def)

lemma shipping_companies:
  "resolve_companies [(''category'', JStr ''shipping''), (''company'', JArr [JStr ''A'', JStr ''B''])]
     = Some [JStr ''A'', JStr ''B'']"
  by (simp add: resolve_companies_def normalize_companies_def dict_get_def)

lemma four_bad_request:
  "daily_digest (demo_env [''bad1'', ''bad2'', ''bad3'', ''bad4'']) world0 shipping_request =
     (fst (digest_loop (demo_env [''bad1'', ''bad2'', ''bad3'', ''bad4'']) 0 four_bad world0 [] 0), 200,
      JArr (fst (snd (digest_loop (demo_env [''bad1'', ''bad2'', ''bad3'', ''bad4'']) 0 four_bad world0 [] 0))))"
  unfolding shipping_request_def
  by (rule daily_digest_run [OF _ shipping_companies demo_search_bad]) (simp_all add: four_bad_def)

lemma five_good_request:
  "daily_digest (demo_env [''ok1'', ''ok2'', ''ok3'', ''ok4'', ''ok5'']) world0 shipping_request =
     (fst (digest_loop (demo_env [''ok1'', ''ok2'', ''ok3'', ''ok4'', ''ok5'']) 0 five_good world0 [] 0), 200,
      JArr (fst (snd (digest_loop (demo_env [''ok1'', ''ok2'', ''ok3'', ''ok4'', ''ok5'']) 0 five_good world0 [] 0))))"
  unfolding shipping_request_def
  by (rule daily_digest_run [OF _ shipping_companies demo_search_good]) (simp_all add: five_good_def)

lemma join_quoted:
  "join sep (map f (e # es)) = f e @ concat (map (\<lambda>x. sep @ f x) es)"
  by (induction es arbitrary: e) simp_all

lemma length_strip: "length (strip s) \<le> length s"
proof -
  have "length (strip s) \<le> length (dropWhile isspace s)"
    unfolding strip_def using length_dropWhile_le [of isspace "rev (dropWhile isspace s)"] by simp
  also have "\<dots> \<le> length s" by (rule length_dropWhile_le)
  finally show ?thesis .
qed

lemma transcribe_audio_key:
  "transcribe_audio env w file_path = (w', Inr tr) \<Longrightarrow> \<not> key_missing (OPENAI_API_KEY env)"
  by (auto simp: transcribe_audio_def split: if_splits)








lemma tiny_attempt:
  "attempt (demo_env []) 0 world0 (demo_podcast ''tiny'') =
     (\<lparr>files = [(''audio_3f2a9c10.m4a'', 500)],
       trace = [Processing (demo_podcast ''tiny''), Download (watch ''tiny'')]\<rparr>,
      failure_entry (demo_podcast ''tiny'') ''Audio file too small - likely corrupted'',
      False)"
  by (simp add: model_defs demo_defs)

lemma transcribe_audio_cleanup:
  assumes "\<not> key_missing (OPENAI_API_KEY env)" and "map_of (files w) file_path = Some file_size"
    and "1000 \<le> file_size" and "file_size \<le> 25 * 1024 * 1024"
  shows "\<not> path_exists (fst (transcribe_audio env w file_path)) file_path"
proof -
  have "map_of (filter (\<lambda>(n, _). n \<noteq> file_path) fs) file_path = None" for fs :: "(string \<times> nat) list"
    by (induction fs) auto
  then show ?thesis
    using assms by (simp add: transcribe_audio_def Let_def emit_def os_remove_def path_exists_def)
qed

section \<open>The claims\<close>



text \<open>
  C2, as the specification states it: for every request the number of items attempted
  is at most the cap of 3. Four candidates whose download fails are all attempted.
\<close>

theorem C2_attempts_within_cap_counterexample:
  "\<not> length (attempted (trace (fst
        (daily_digest (demo_env [''bad1'', ''bad2'', ''bad3'', ''bad4'']) world0 shipping_request))))
      \<le> max_videos_to_process"
proof -
  let ?E = "demo_env [''bad1'', ''bad2'', ''bad3'', ''bad4'']"
  let ?R = "digest_loop ?E 0 four_bad world0 [] 0"
  have r: "?R = (fst ?R, fst (snd ?R), snd (snd ?R))" by simp
  have "length (fst (snd ?R)) = 4" by (simp add: four_bad_entries)
  moreover have "attempted (trace (fst ?R)) = attempted (trace world0) @ take (length (fst (snd ?R))) four_bad"
    using digest_loop_inv [OF r le0] by blast
  ultimately have "length (attempted (trace (fst ?R))) = 4"
    by (simp add: four_bad_def world0_def)
  then show ?thesis
    by (simp add: four_bad_request max_videos_to_process_def)
qed

text \<open>
  C2, amended. For every request the number of entries in the response equals the
  number of items attempted, the items attempted are a prefix of the candidates
  retrieved (so at most as many), and the number of entries without \<open>error\<close> is at
  most the cap of 3.
\<close>

theorem C2_entries_attempts_successes:
  assumes "daily_digest env w req = (w', status, body)"
  shows "\<exists>q. attempted (trace w') =
               attempted (trace w) @
               take (length (digest_entries body)) (get_last_month_youtube_podcasts env q 5)
           \<and> length (digest_entries body) \<le> length (get_last_month_youtube_podcasts env q 5)
           \<and> length (attempted (trace w')) = length (attempted (trace w)) + length (digest_entries body)
           \<and> length (filter is_success (digest_entries body)) \<le> max_videos_to_process"
proof -
  from daily_digest_cases [OF assms]
  consider (stay) "w' = w" "digest_entries body = []"
    | (run) q summaries c where
        "digest_loop env 0 (get_last_month_youtube_podcasts env q 5) w [] 0 = (w', summaries, c)"
        "body = JArr summaries"
    by (auto simp: digest_entries_def)
  then show ?thesis
  proof cases
    case stay
    then show ?thesis by simp
  next
    case run
    have d: "digest_entries body = summaries" using run(2) by (simp add: digest_entries_def)
    from digest_loop_inv [OF run(1) le0] show ?thesis
      unfolding d by (intro exI [of _ q]) auto
  qed
qed

theorem C2_entries_attempts_successes_witness:
  "fst (snd (daily_digest (demo_env [''ok1'', ''ok2'', ''ok3'', ''ok4'', ''ok5'']) world0 shipping_request)) = 200
   \<and> length (digest_entries (snd (snd
        (daily_digest (demo_env [''ok1'', ''ok2'', ''ok3'', ''ok4'', ''ok5'']) world0 shipping_request)))) = 3
   \<and> length (attempted (trace (fst
        (daily_digest (demo_env [''ok1'', ''ok2'', ''ok3'', ''ok4'', ''ok5'']) world0 shipping_request)))) = 3
   \<and> length (filter is_success (digest_entries (snd (snd
        (daily_digest (demo_env [''ok1'', ''ok2'', ''ok3'', ''ok4'', ''ok5'']) world0 shipping_request)))))
       \<le> max_videos_to_process"
proof -
  let ?D = "daily_digest (demo_env [''ok1'', ''ok2'', ''ok3'', ''ok4'', ''ok5'']) world0 shipping_request"
  have d: "?D = (fst ?D, fst (snd ?D), snd (snd ?D))" by simp
  have s: "fst (snd ?D) = 200" by (simp add: five_good_request)
  have n: "length (digest_entries (snd (snd ?D))) = 3"
    by (simp add: five_good_request digest_entries_def five_good_entries)
  from C2_entries_attempts_successes [OF d] n
  have "length (attempted (trace (fst ?D))) = length (attempted (trace world0)) + 3"
    and "length (filter is_success (digest_entries (snd (snd ?D)))) \<le> max_videos_to_process"
    by auto
  then show ?thesis using s n by (simp add: world0_def)
qed




text \<open>
  C4. The specification asks that no downloaded audio file survives the processing of
  its item. The code runs its cleanup in the \<open>finally\<close> of a \<open>try\<close> that starts after
  the size checks, so a download of 500 bytes is rejected before the \<open>try\<close> and the
  file stays: it is absent before the item and present after it, and the entry reports
  the size error.
\<close>

theorem C4_residual_audio_file:
  "\<not> path_exists world0 ''audio_3f2a9c10.m4a''
   \<and> path_exists (fst (attempt (demo_env []) 0 world0 (demo_podcast ''tiny''))) ''audio_3f2a9c10.m4a''
   \<and> field ''error'' (fst (snd (attempt (demo_env []) 0 world0 (demo_podcast ''tiny'')))) =
       Some (JStr ''Audio file too small - likely corrupted'')"
  unfolding tiny_attempt
  by (simp add: path_exists_def world0_def field_def failure_entry_def)

text \<open>
  C5. Every attempted candidate yields exactly one entry of the response, carrying
  the candidate's title, channel, publication date and URL, and the entries are in the
  order of the attempts: the entries and the items attempted during the request
  correspond one to one, position by position. A response with status 200 is the array
  of these entries.
\<close>

theorem C5_one_entry_per_attempt:
  assumes "daily_digest env w req = (w', status, body)"
  shows "\<exists>items. attempted (trace w') = attempted (trace w) @ items
           \<and> list_all2 entry_of items (digest_entries body)
           \<and> (status = 200 \<longrightarrow> body = JArr (digest_entries body))"
proof -
  from daily_digest_cases [OF assms]
  consider (bad) "w' = w" "digest_entries body = []" "status = 400"
    | (stay) "w' = w" "body = JArr []"
    | (run) q summaries c where
        "digest_loop env 0 (get_last_month_youtube_podcasts env q 5) w [] 0 = (w', summaries, c)"
        "body = JArr summaries"
    by (auto simp: digest_entries_def)
  then show ?thesis
  proof cases
    case bad
    then show ?thesis by simp
  next
    case stay
    then show ?thesis by (simp add: digest_entries_def)
  next
    case run
    have d: "digest_entries body = summaries" using run(2) by (simp add: digest_entries_def)
    from digest_loop_inv [OF run(1) le0] show ?thesis
      unfolding d using run(2)
      by (intro exI [of _ "take (length summaries) (get_last_month_youtube_podcasts env q 5)"]) auto
  qed
qed

theorem C5_one_entry_per_attempt_witness:
  "attempted (trace (fst
      (daily_digest (demo_env [''bad1'', ''bad2'', ''bad3'', ''bad4'']) world0 shipping_request))) = four_bad
   \<and> list_all2 entry_of four_bad (digest_entries (snd (snd
      (daily_digest (demo_env [''bad1'', ''bad2'', ''bad3'', ''bad4'']) world0 shipping_request))))
   \<and> fst (snd (daily_digest (demo_env [''bad1'', ''bad2'', ''bad3'', ''bad4'']) world0 shipping_request)) = 200"
proof -
  let ?D = "daily_digest (demo_env [''bad1'', ''bad2'', ''bad3'', ''bad4'']) world0 shipping_request"
  have d: "?D = (fst ?D, fst (snd ?D), snd (snd ?D))" by simp
  have s: "fst (snd ?D) = 200" by (simp add: four_bad_request)
  have n: "length (digest_entries (snd (snd ?D))) = 4"
    by (simp add: four_bad_request digest_entries_def four_bad_entries)
  from C5_one_entry_per_attempt [OF d] obtain items where
    i: "attempted (trace (fst ?D)) = attempted (trace world0) @ items"
       "list_all2 entry_of items (digest_entries (snd (snd ?D)))"
    by blast
  have a: "attempted (trace (fst ?D)) = four_bad"
  proof -
    let ?R = "digest_loop (demo_env [''bad1'', ''bad2'', ''bad3'', ''bad4'']) 0 four_bad world0 [] 0"
    have r: "?R = (fst ?R, fst (snd ?R), snd (snd ?R))" by simp
    have len: "length (fst (snd ?R)) = 4" by (simp add: four_bad_entries)
    have tk: "take 4 four_bad = four_bad" by (simp add: four_bad_def)
    have "attempted (trace (fst ?R)) = attempted (trace world0) @ take (length (fst (snd ?R))) four_bad"
      using digest_loop_inv [OF r le0] by blast
    then have "attempted (trace (fst ?R)) = four_bad"
      unfolding len tk by (simp add: world0_def)
    then show ?thesis by (simp add: four_bad_request)
  qed
  with i have "items = four_bad" by (simp add: world0_def)
  with i(2) a s show ?thesis by simp
qed




text \<open>
  C7. With the credential present and the file in place, \<open>transcribe_audio\<close> rejects a
  file below 1000 bytes (the code's 1 KB) with the message that it is too small and
  likely corrupted, rejects a file above 25 * 1024 * 1024 bytes (the code's 25 MB) with
  a different message that it is too large, and otherwise passes it to the
  transcription service, whose answer it returns. A file of 500 bytes and one of
  26 * 1024 * 1024 bytes are rejected, each with its message.
\<close>

theorem C7_size_gate:
  assumes "\<not> key_missing (OPENAI_API_KEY env)" and "map_of (files w) file_path = Some file_size"
  shows "(file_size < 1000 \<longrightarrow>
            transcribe_audio env w file_path = (w, Inl ''Audio file too small - likely corrupted''))
       \<and> (25 * 1024 * 1024 < file_size \<longrightarrow>
            transcribe_audio env w file_path =
              (w, Inl (''File too large: '' @ mb_1f env file_size @ ''MB (max 25MB)'')))
       \<and> ''Audio file too small - likely corrupted'' \<noteq>
            ''File too large: '' @ mb_1f env file_size @ ''MB (max 25MB)''
       \<and> (1000 \<le> file_size \<and> file_size \<le> 25 * 1024 * 1024 \<longrightarrow>
            snd (transcribe_audio env w file_path) =
              (case whisper env file_path file_size of
                 Inl e \<Rightarrow> Inl e
               | Inr t \<Rightarrow> Inr (transcript_text t))
            \<and> trace (fst (transcribe_audio env w file_path)) = trace w @ [Transcribe file_path])"
  using assms by (simp add: transcribe_audio_def Let_def emit_def os_remove_def path_exists_def)

theorem C7_size_gate_witness:
  "\<not> key_missing (OPENAI_API_KEY (demo_env []))
   \<and> map_of (files (scratch_with 500)) ''audio_3f2a9c10.m4a'' = Some 500
   \<and> transcribe_audio (demo_env []) (scratch_with 500) ''audio_3f2a9c10.m4a'' =
       (scratch_with 500, Inl ''Audio file too small - likely corrupted'')
   \<and> map_of (files (scratch_with (26 * 1024 * 1024))) ''audio_3f2a9c10.m4a'' = Some (26 * 1024 * 1024)
   \<and> transcribe_audio (demo_env []) (scratch_with (26 * 1024 * 1024)) ''audio_3f2a9c10.m4a'' =
       (scratch_with (26 * 1024 * 1024), Inl ''File too large: 26.0MB (max 25MB)'')
   \<and> map_of (files (scratch_with 2048)) ''audio_3f2a9c10.m4a'' = Some 2048
   \<and> snd (transcribe_audio (demo_env []) (scratch_with 2048) ''audio_3f2a9c10.m4a'') = Inr demo_text"
proof -
  have k: "\<not> key_missing (OPENAI_API_KEY (demo_env []))" by (simp add: demo_env_def)
  have f: "map_of (files (scratch_with n)) ''audio_3f2a9c10.m4a'' = Some n" for n
    by (simp add: scratch_with_def)
  have m: "mb_1f (demo_env []) (26 * 1024 * 1024) = ''26.0''" by (simp add: demo_env_def)
  have wh: "whisper (demo_env []) ''audio_3f2a9c10.m4a'' 2048 = Inr (PlainText demo_text)"
    by (simp add: demo_env_def)
  have "transcribe_audio (demo_env []) (scratch_with 500) ''audio_3f2a9c10.m4a'' =
       (scratch_with 500, Inl ''Audio file too small - likely corrupted'')"
    using C7_size_gate [OF k f [of 500]] by simp
  moreover have "transcribe_audio (demo_env []) (scratch_with (26 * 1024 * 1024)) ''audio_3f2a9c10.m4a'' =
       (scratch_with (26 * 1024 * 1024), Inl ''File too large: 26.0MB (max 25MB)'')"
    using C7_size_gate [OF k f [of "26 * 1024 * 1024"]] m by simp
  moreover have "snd (transcribe_audio (demo_env []) (scratch_with 2048) ''audio_3f2a9c10.m4a'') = Inr demo_text"
    using C7_size_gate [OF k f [of 2048]] wh by simp
  ultimately show ?thesis using k f by simp
qed

text \<open>
  C8. For a topic string and a non-empty list of entity strings, line 237 builds
  exactly the string of the specification: the topic, \<open>podcast OR interview OR news\<close>,
  then each entity in double quotes, joined with \<open>OR\<close>. For the category \<open>shipping\<close>
  and the entities \<open>A\<close> and \<open>B\<close> it is
  \<open>shipping podcast OR interview OR news "A" OR "B"\<close>.
\<close>

theorem C8_search_string:
  "build_search_keywords env (JStr t) (map JStr (e # es)) = spec_search_string t (e # es)
   \<and> build_search_keywords env (JStr ''shipping'') [JStr ''A'', JStr ''B''] =
       ''shipping podcast OR interview OR news '' @ quoted ''A'' @ '' OR '' @ quoted ''B''"
proof -
  have m: "map (\<lambda>company. [CHR 0x22] @ fstr env company @ [CHR 0x22]) (map JStr xs) = map quoted xs"
    for xs by (simp add: fstr_def quoted_def)
  have j: "join '' OR '' (map quoted (x # xs)) = quoted x @ concat (map (\<lambda>y. '' OR '' @ quoted y) xs)"
    for x xs using join_quoted [of "'' OR ''" quoted x xs] by simp
  have g: "build_search_keywords env (JStr t) (map JStr (x # xs)) = spec_search_string t (x # xs)"
    for t x xs
    unfolding build_search_keywords_def m j by (simp add: fstr_def)
  have "build_search_keywords env (JStr ''shipping'') (map JStr [''A'', ''B'']) =
          spec_search_string ''shipping'' [''A'', ''B'']"
    by (rule g)
  then show ?thesis using g [of t e es] by simp
qed

text \<open>
  C9. For every transcript that \<open>transcribe_audio\<close> returned and that is shorter than 50
  characters, \<open>summarize_text\<close> returns the fixed placeholder and leaves the state as it
  was: the trace gets no \<open>Generate\<close> event, and the result is the same whatever the
  generation collaborator is.
\<close>

theorem C9_short_transcript:
  assumes "transcribe_audio env w file_path = (w', Inr transcription)"
    and "length transcription < 50"
  shows "summarize_text env w' transcription =
           (w', ''Transcript too short to generate meaningful summary'')
       \<and> (\<forall>g. summarize_text (env\<lparr>gpt := g\<rparr>) w' transcription =
           (w', ''Transcript too short to generate meaningful summary''))"
proof -
  have k: "\<not> key_missing (OPENAI_API_KEY env)" by (rule transcribe_audio_key [OF assms(1)])
  have "length (strip transcription) < 50"
    using length_strip [of transcription] assms(2) by simp
  with k show ?thesis by (simp add: summarize_text_def)
qed

theorem C9_short_transcript_witness:
  "transcribe_audio short_env (scratch_with 2048) ''audio_3f2a9c10.m4a'' =
     (\<lparr>files = [], trace = [Transcribe ''audio_3f2a9c10.m4a'']\<rparr>, Inr ''Thanks for watching.'')
   \<and> length ''Thanks for watching.'' < (50::nat)
   \<and> summarize_text short_env \<lparr>files = [], trace = [Transcribe ''audio_3f2a9c10.m4a'']\<rparr>
        ''Thanks for watching.'' =
       (\<lparr>files = [], trace = [Transcribe ''audio_3f2a9c10.m4a'']\<rparr>,
        ''Transcript too short to generate meaningful summary'')"
proof -
  have t: "transcribe_audio short_env (scratch_with 2048) ''audio_3f2a9c10.m4a'' =
     (\<lparr>files = [], trace = [Transcribe ''audio_3f2a9c10.m4a'']\<rparr>, Inr ''Thanks for watching.'')"
    by (simp add: short_env_def demo_env_def scratch_with_def transcribe_audio_def emit_def
        path_exists_def os_remove_def)
  have l: "length ''Thanks for watching.'' < (50::nat)" by simp
  from C9_short_transcript [OF t l] t l show ?thesis by blast
qed



end
